theory Spec2Isabelle
  imports Complex_Main
begin

section \<open>Instants, calendar dates and the library calls the handlers make\<close>

text \<open>
  An instant (a JavaScript \<^verbatim>\<open>Date\<close>, or the ISO date-time string that
  \<^verbatim>\<open>toISOString\<close> renders it as) is its number of milliseconds since the epoch.
  A calendar date (the record's \<^verbatim>\<open>YYYY-MM-DD\<close> string) is its number of days since
  1970-01-01; an empty or null string is \<open>None\<close>. The browser's time zone is a fixed
  offset \<open>tz\<close> in milliseconds, local time being UTC + \<open>tz\<close> (no daylight saving).
  JavaScript numbers are exact rationals here: the rounding error of doubles is not
  modelled.
\<close>

type_synonym instant = int
type_synonym isodate = int

text \<open>\<^verbatim>\<open>Math.trunc(a / b)\<close> for a positive divisor: the quotient rounded towards zero.\<close>

definition truncDiv :: "int \<Rightarrow> int \<Rightarrow> int" where
  "truncDiv a b = (if a < 0 then - ((- a) div b) else a div b)"

text \<open>
  date-fns \<^verbatim>\<open>differenceInMinutes(dateLeft, dateRight)\<close>: the number of full minutes
  between the two instants, the millisecond difference over 60000 truncated towards zero.
\<close>

definition differenceInMinutes :: "instant \<Rightarrow> instant \<Rightarrow> int" where
  "differenceInMinutes dateLeft dateRight = truncDiv (dateLeft - dateRight) 60000"

text \<open>
  \<^verbatim>\<open>Number(x.toFixed(n))\<close>: the multiple of \<open>10^-n\<close> nearest to \<open>x\<close>, the larger one
  in magnitude at a tie (\<^verbatim>\<open>toFixed\<close> works on the absolute value and restores the sign).
\<close>

definition toFixed :: "nat \<Rightarrow> rat \<Rightarrow> rat" where
  "toFixed n x =
     (if x < 0 then - (of_int \<lfloor>(- x) * 10 ^ n + 1 / 2\<rfloor> / 10 ^ n)
      else of_int \<lfloor>x * 10 ^ n + 1 / 2\<rfloor> / 10 ^ n)"


text \<open>\<^verbatim>\<open>d.getHours()\<close>: the hour of the day of an instant in local time.\<close>

definition getHours :: "int \<Rightarrow> instant \<Rightarrow> int" where
  "getHours tz t = ((t + tz) div 3600000) mod 24"

text \<open>\<^verbatim>\<open>format(t, 'yyyy-MM-dd')\<close>: the local calendar date of an instant.\<close>

definition localDate :: "int \<Rightarrow> instant \<Rightarrow> isodate" where
  "localDate tz t = (t + tz) div 86400000"

text \<open>
  \<^verbatim>\<open>new Date('YYYY-MM-DD').getTime()\<close>: ECMAScript reads a date-only ISO string as
  midnight UTC of that date, whatever the local time zone.
\<close>

definition utcMidnight :: "isodate \<Rightarrow> instant" where
  "utcMidnight d = d * 86400000"

text \<open>
  The proleptic Gregorian calendar: year, month (1 to 12) and day of month of a day
  number, by the usual era / day-of-era computation.
\<close>

definition civil :: "isodate \<Rightarrow> int \<times> int \<times> int" where
  "civil z0 =
     (let z = z0 + 719468;
          era = z div 146097;
          doe = z - era * 146097;
          yoe = (doe - doe div 1460 + doe div 36524 - doe div 146096) div 365;
          y = yoe + era * 400;
          doy = doe - (365 * yoe + yoe div 4 - yoe div 100);
          mp = (5 * doy + 2) div 153;
          d = doy - (153 * mp + 2) div 5 + 1;
          m = (if mp < 10 then mp + 3 else mp - 9)
      in (if m \<le> 2 then y + 1 else y, m, d))"

definition digit :: "int \<Rightarrow> char" where
  "digit k = ''0123456789'' ! nat (k mod 10)"

definition pad2 :: "int \<Rightarrow> string" where
  "pad2 n = [digit (n div 10), digit n]"

definition pad4 :: "int \<Rightarrow> string" where
  "pad4 n = [digit (n div 1000), digit (n div 100), digit (n div 10), digit n]"

text \<open>The \<^verbatim>\<open>YYYY-MM-DD\<close> string of a date (years 0 to 9999).\<close>

definition isoDate :: "isodate \<Rightarrow> string" where
  "isoDate d = (case civil d of (y, m, dd) \<Rightarrow> pad4 y @ ''-'' @ pad2 m @ ''-'' @ pad2 dd)"

definition monthAbbrev :: "int \<Rightarrow> string" where
  "monthAbbrev m =
     [''Jan'', ''Feb'', ''Mar'', ''Apr'', ''May'', ''Jun'',
      ''Jul'', ''Aug'', ''Sep'', ''Oct'', ''Nov'', ''Dec''] ! nat ((m - 1) mod 12)"

text \<open>\<^verbatim>\<open>format(parseISO(date), 'dd MMM')\<close>, the key and label of a chart point.\<close>

definition format_dd_MMM :: "isodate \<Rightarrow> string" where
  "format_dd_MMM d = (case civil d of (y, m, dd) \<Rightarrow> pad2 dd @ '' '' @ monthAbbrev m)"

text \<open>Months counted from year 0: two dates are in the same month iff the counts agree.\<close>

definition monthIndex :: "isodate \<Rightarrow> int" where
  "monthIndex d = (case civil d of (y, m, dd) \<Rightarrow> 12 * y + (m - 1))"

section \<open>The data model (types.ts)\<close>

datatype AttendanceStatus = PRESENT | ABSENT | LATE | HALF_DAY | ON_LEAVE

record AttendanceRecord =
  id' :: string
  employeeId :: string
  date :: isodate
  checkIn :: "instant option"
  checkOut :: "instant option"
  status :: AttendanceStatus
  durationHours :: rat

section \<open>EmployeeDashboard: today's record, check-in and check-out\<close>

text \<open>
  The component closes over the signed-in user's id \<open>uid\<close>, the record list \<open>records\<close>
  and the instant \<open>today\<close> of the current render; a handler reads the clock again as
  \<open>now\<close> when it runs.
\<close>

definition todayStr :: "int \<Rightarrow> instant \<Rightarrow> isodate" where
  "todayStr tz today = localDate tz today"

definition myRecords :: "string \<Rightarrow> AttendanceRecord list \<Rightarrow> AttendanceRecord list" where
  "myRecords uid records = filter (\<lambda>record. employeeId record = uid) records"

definition todayRecord ::
  "string \<Rightarrow> int \<Rightarrow> instant \<Rightarrow> AttendanceRecord list \<Rightarrow> AttendanceRecord option" where
  "todayRecord uid tz today records =
     find (\<lambda>r. date r = todayStr tz today) (myRecords uid records)"

text \<open>The template literal \<^verbatim>\<open>`${currentUser.id}-${date}`\<close>.\<close>

definition recordId :: "string \<Rightarrow> isodate \<Rightarrow> string" where
  "recordId uid d = uid @ ''-'' @ isoDate d"

definition handleCheckIn :: "string \<Rightarrow> int \<Rightarrow> instant \<Rightarrow> instant \<Rightarrow> AttendanceRecord" where
  "handleCheckIn uid tz today now =
     \<lparr> id' = recordId uid (todayStr tz today),
       employeeId = uid,
       date = todayStr tz today,
       checkIn = Some now,
       checkOut = None,
       status = (if getHours tz now \<ge> 10 then LATE else PRESENT),
       durationHours = 0 \<rparr>"

text \<open>
  \<open>handleCheckOut\<close> returns \<open>None\<close> where the source returns without calling
  \<^verbatim>\<open>onUpdateRecord\<close>, and otherwise the record it hands to \<^verbatim>\<open>onUpdateRecord\<close>.
\<close>

definition handleCheckOut :: "AttendanceRecord option \<Rightarrow> instant \<Rightarrow> AttendanceRecord option" where
  "handleCheckOut todayRec now =
     (case todayRec of
        None \<Rightarrow> None
      | Some r \<Rightarrow>
          (let checkInTime = (case checkIn r of Some t \<Rightarrow> t | None \<Rightarrow> now);
               diffMinutes = differenceInMinutes now checkInTime;
               hours = toFixed 2 (of_int diffMinutes / 60)
           in Some (r\<lparr>checkOut := Some now, durationHours := hours\<rparr>)))"

text \<open>
  The control the "Today's Status" card renders: the check-in button only while the user
  has no record for today, the check-out button while that record has no check-out, and
  the "Completed" badge afterwards.
\<close>

datatype today_control = CheckInButton | CheckOutButton | CompletedBadge

definition todayControl :: "AttendanceRecord option \<Rightarrow> today_control" where
  "todayControl todayRec =
     (case todayRec of
        None \<Rightarrow> CheckInButton
      | Some r \<Rightarrow> (if checkOut r = None then CheckOutButton else CompletedBadge))"

section \<open>EmployeeDashboard: the manual entry and edit form\<close>

text \<open>An empty form field (the empty string, falsy in JavaScript) is \<open>None\<close>.\<close>

record EditForm =
  formDate :: "isodate option"
  formCheckIn :: "instant option"
  formCheckOut :: "instant option"

text \<open>
  What \<open>handleSaveEdit\<close> does: return silently, alert and return, or hand a record to
  \<^verbatim>\<open>onUpdateRecord\<close> and close the modal. \<open>UpdatedEmptyDate\<close> is the last of these for
  an edit through a form whose date is empty (\<^verbatim>\<open>new Date('')\<close> is an invalid date, every
  comparison with it is false): the record handed over then carries the empty string as
  its date. The date input is disabled while editing, so the dashboard does not reach it.
\<close>

datatype save_outcome = Returned | Alerted string | Updated AttendanceRecord | UpdatedEmptyDate

definition futureDateAlert :: string where
  "futureDateAlert = ''Cannot add records for future dates.''"

definition duplicateAlert :: string where
  "duplicateAlert =
     ''A record already exists for this date. Please edit the existing record instead.''"

definition timeRangeAlert :: string where
  "timeRangeAlert = ''Check-out time cannot be before check-in time.''"

text \<open>
  Lines 346 to 365 of the handler: the duration and status computed from the two form
  fields, or the alert when check-out precedes check-in.
\<close>

definition durationAndStatus ::
  "int \<Rightarrow> instant option \<Rightarrow> instant option \<Rightarrow> string + (rat \<times> AttendanceStatus)" where
  "durationAndStatus tz ci co =
     (case ci of
        None \<Rightarrow> Inr (0, PRESENT)
      | Some start \<Rightarrow>
          (case co of
             None \<Rightarrow> Inr (0, PRESENT)
           | Some end' \<Rightarrow>
               if end' < start then Inl timeRangeAlert
               else
                 (let diff = differenceInMinutes end' start;
                      duration = (if diff > 0 then toFixed 2 (of_int diff / 60) else 0)
                  in Inr (duration, if getHours tz start \<ge> 10 then LATE else PRESENT))))"

definition handleSaveEdit ::
  "string \<Rightarrow> int \<Rightarrow> AttendanceRecord list \<Rightarrow> instant \<Rightarrow> bool \<Rightarrow> AttendanceRecord option \<Rightarrow>
     EditForm \<Rightarrow> save_outcome" where
  "handleSaveEdit uid tz records now isCreating editingRecord editForm =
     (if \<not> isCreating \<and> editingRecord = None then Returned
      else if isCreating \<and> formDate editForm = None then Returned
      else if (case formDate editForm of Some d \<Rightarrow> utcMidnight d > now | None \<Rightarrow> False)
        then Alerted futureDateAlert
      else if isCreating \<and>
          (case formDate editForm of
             Some d \<Rightarrow> find (\<lambda>r. id' r = recordId uid d) records \<noteq> None
           | None \<Rightarrow> False)
        then Alerted duplicateAlert
      else
        (case durationAndStatus tz (formCheckIn editForm) (formCheckOut editForm) of
           Inl msg \<Rightarrow> Alerted msg
         | Inr (duration, st) \<Rightarrow>
             (case formDate editForm of
                None \<Rightarrow> UpdatedEmptyDate
              | Some d \<Rightarrow>
                  Updated
                    \<lparr> id' = (if isCreating then recordId uid d
                              else (case editingRecord of Some e \<Rightarrow> id' e | None \<Rightarrow> recordId uid d)),
                      employeeId = uid,
                      date = d,
                      checkIn = formCheckIn editForm,
                      checkOut = formCheckOut editForm,
                      status = st,
                      durationHours = duration \<rparr>)))"

section \<open>App: optimistic updates and persistence\<close>

text \<open>The updater handed to \<^verbatim>\<open>setAttendanceRecords\<close> in \<open>handleUpdateRecord\<close>.\<close>

definition optimisticUpdate ::
  "AttendanceRecord list \<Rightarrow> AttendanceRecord \<Rightarrow> AttendanceRecord list" where
  "optimisticUpdate prevRecords updatedRecord =
     (case find (\<lambda>r. id' r = id' updatedRecord) prevRecords of
        Some exists \<Rightarrow> map (\<lambda>r. if id' r = id' updatedRecord then updatedRecord else r) prevRecords
      | None \<Rightarrow> prevRecords @ [updatedRecord])"

text \<open>The updater handed to \<^verbatim>\<open>setAttendanceRecords\<close> in \<open>handleDeleteRecord\<close>.\<close>

definition optimisticDelete :: "AttendanceRecord list \<Rightarrow> string \<Rightarrow> AttendanceRecord list" where
  "optimisticDelete prevRecords recId = filter (\<lambda>r. id' r \<noteq> recId) prevRecords"

text \<open>
  The record list after \<open>handleSaveEdit\<close>: changed only through \<^verbatim>\<open>onUpdateRecord\<close>.
  \<open>None\<close> stands for the list after \<open>UpdatedEmptyDate\<close>, whose new record the record
  type here cannot hold.
\<close>

fun recordsAfterSave :: "AttendanceRecord list \<Rightarrow> save_outcome \<Rightarrow> AttendanceRecord list option" where
  "recordsAfterSave records Returned = Some records"
| "recordsAfterSave records (Alerted msg) = Some records"
| "recordsAfterSave records (Updated r) = Some (optimisticUpdate records r)"
| "recordsAfterSave records UpdatedEmptyDate = None"

text \<open>
  What the store answers to a call: no error, an error object (with its message, if it
  has one), or an exception thrown by the awaited call (an error object or a string).
\<close>

datatype js_error = ErrorObject "string option" | ErrorString string

datatype db_result = DbOk | DbError "string option" | DbThrown js_error

text \<open>\<^verbatim>\<open>message || fallback\<close>: a missing or empty message is falsy.\<close>

definition orElse :: "string option \<Rightarrow> string \<Rightarrow> string" where
  "orElse message fallback =
     (case message of None \<Rightarrow> fallback | Some m \<Rightarrow> (if m = [] then fallback else m))"

text \<open>
  The observable effects of a handler, in the order in which it performs them: the state
  update it enqueues, the calls to the store, the alerts shown to the user.
\<close>

datatype effect =
    SetAttendanceRecords "AttendanceRecord list"
  | DbUpsert AttendanceRecord
  | DbDelete string
  | Alert string

record App =
  attendanceRecords :: "AttendanceRecord list"
  effects :: "effect list"

definition handleUpdateRecord :: "db_result \<Rightarrow> App \<Rightarrow> AttendanceRecord \<Rightarrow> App" where
  "handleUpdateRecord answer app updatedRecord =
     (let recs = optimisticUpdate (attendanceRecords app) updatedRecord;
          performed = effects app @ [SetAttendanceRecords recs, DbUpsert updatedRecord]
      in \<lparr> attendanceRecords = recs,
           effects =
             (case answer of
                DbOk \<Rightarrow> performed
              | DbError message \<Rightarrow>
                  performed @ [Alert (''Failed to save record: '' @ orElse message ''Unknown error'')]
              | DbThrown err \<Rightarrow> performed @ [Alert ''An unexpected error occurred while saving.'']) \<rparr>)"

definition deleteErrorMsg :: "js_error \<Rightarrow> string" where
  "deleteErrorMsg err =
     (case err of
        ErrorObject message \<Rightarrow> orElse message ''Unknown error''
      | ErrorString s \<Rightarrow> (if s = [] then ''Unknown error'' else s))"

definition handleDeleteRecord :: "db_result \<Rightarrow> App \<Rightarrow> string \<Rightarrow> App" where
  "handleDeleteRecord answer app recId =
     (let recs = optimisticDelete (attendanceRecords app) recId;
          performed = effects app @ [SetAttendanceRecords recs, DbDelete recId]
      in \<lparr> attendanceRecords = recs,
           effects =
             (case answer of
                DbOk \<Rightarrow> performed
              | DbError message \<Rightarrow>
                  performed @ [Alert (''Failed to delete record: '' @ deleteErrorMsg (ErrorObject message))]
              | DbThrown err \<Rightarrow>
                  performed @ [Alert (''Failed to delete record: '' @ deleteErrorMsg err)]) \<rparr>)"

section \<open>The dashboards' month filter, statistics and chart series\<close>

datatype month_choice = current | previous

text \<open>
  \<open>filteredRecords\<close>: the records of the selected month (\<^verbatim>\<open>isSameMonth\<close> with today, or
  \<^verbatim>\<open>isWithinInterval\<close> of the previous month's first and last instant), most recent date
  first. \<^verbatim>\<open>Array.prototype.sort\<close> is stable, as \<open>sort_key\<close> is. The employee dashboard
  applies it to \<open>myRecords\<close>, the manager dashboard to all records.
\<close>

definition filteredRecords ::
  "month_choice \<Rightarrow> int \<Rightarrow> instant \<Rightarrow> AttendanceRecord list \<Rightarrow> AttendanceRecord list" where
  "filteredRecords selectedMonth tz today recs =
     sort_key (\<lambda>r. - date r)
       (filter
          (\<lambda>record.
             if selectedMonth = current
             then monthIndex (date record) = monthIndex (localDate tz today)
             else monthIndex (date record) = monthIndex (localDate tz today) - 1)
          recs)"







text \<open>
  A point of the manager's chart. \<open>dailyStats\<close> is a JavaScript object used as a
  dictionary: its keys are the \<^verbatim>\<open>dd MMM\<close> labels, none of which is an array index, so
  \<^verbatim>\<open>Object.values\<close> lists the points in the order in which their keys were first written.
  It is an association list in that order.
\<close>

record ChartPoint =
  date' :: string
  hours :: rat
  present' :: nat

text \<open>The body of the \<^verbatim>\<open>forEach\<close> loop.\<close>

definition addToDaily ::
  "(string \<times> ChartPoint) list \<Rightarrow> AttendanceRecord \<Rightarrow> (string \<times> ChartPoint) list" where
  "addToDaily dailyStats record =
     (let d = format_dd_MMM (date record);
          ds = (if map_of dailyStats d = None
                then dailyStats @ [(d, \<lparr> date' = d, hours = 0, present' = 0 \<rparr>)]
                else dailyStats)
      in map (\<lambda>(k, p).
                if k = d
                then (k, p\<lparr> hours := hours p + durationHours record,
                             present' := present' p +
                               (if status record = PRESENT \<or> status record = LATE then 1 else 0) \<rparr>)
                else (k, p))
           ds)"

definition chartData :: "AttendanceRecord list \<Rightarrow> ChartPoint list" where
  "chartData filtered = take 14 (rev (map snd (foldl addToDaily [] filtered)))"

text \<open>The chart of the employee dashboard, for comparison: the ten most recent records.\<close>

definition employeeChartData :: "AttendanceRecord list \<Rightarrow> (string \<times> rat) list" where
  "employeeChartData filtered =
     map (\<lambda>record. (format_dd_MMM (date record), durationHours record)) (rev (take 10 filtered))"

section \<open>Example data\<close>

text \<open>Day 19737 is 2024-01-15. \<open>clock d h m s\<close> is the instant \<open>h:m:s\<close> UTC of day \<open>d\<close>.\<close>

definition clock :: "isodate \<Rightarrow> int \<Rightarrow> int \<Rightarrow> int \<Rightarrow> instant" where
  "clock d h m s = d * 86400000 + h * 3600000 + m * 60000 + s * 1000"

text \<open>Employee e1 checked in at 09:00:00 on 2024-01-15 and has not checked out.\<close>

definition morningRecord :: AttendanceRecord where
  "morningRecord =
     \<lparr> id' = ''e1-2024-01-15'', employeeId = ''e1'', date = 19737,
       checkIn = Some (clock 19737 9 0 0), checkOut = None,
       status = PRESENT, durationHours = 0 \<rparr>"

text \<open>A manual entry for 2024-01-15 saved with both time fields empty.\<close>

definition blankRecord :: AttendanceRecord where
  "blankRecord =
     \<lparr> id' = ''e1-2024-01-15'', employeeId = ''e1'', date = 19737,
       checkIn = None, checkOut = None,
       status = PRESENT, durationHours = 0 \<rparr>"


text \<open>Fifteen records of eight hours, one for each day from 2024-01-01 to 2024-01-15.\<close>

definition fifteenDays :: "AttendanceRecord list" where
  "fifteenDays =
     map (\<lambda>k. \<lparr> id' = ''e1-2024-01-'' @ pad2 (k + 1), employeeId = ''e1'', date = 19723 + k,
                 checkIn = None, checkOut = None, status = PRESENT, durationHours = 8 \<rparr>)
       [0..14]"

section \<open>Arithmetic of the helpers\<close>

lemma truncDiv_nonneg: "0 \<le> a \<Longrightarrow> truncDiv a b = a div b"
  by (simp add: truncDiv_def)

lemma differenceInMinutes_later: "t \<le> now \<Longrightarrow> differenceInMinutes now t = (now - t) div 60000"
  by (simp add: differenceInMinutes_def truncDiv_nonneg)

lemma floor_half: "\<lfloor>1 / 2 :: rat\<rfloor> = 0"
  by (simp add: floor_eq_iff)

lemma toFixed_zero: "toFixed n 0 = 0"
  by (simp add: toFixed_def floor_half)



section \<open>Check-out and the edit form, case by case\<close>


lemma handleCheckOut_not_checkedIn:
  assumes "checkIn r = None"
  shows "handleCheckOut (Some r) now = Some (r\<lparr>checkOut := Some now, durationHours := 0\<rparr>)"
  using assms
  by (simp add: handleCheckOut_def Let_def differenceInMinutes_def truncDiv_def toFixed_zero)

lemma durationAndStatus_both:
  "durationAndStatus tz (Some s) (Some e) =
     (if e < s then Inl timeRangeAlert
      else Inr (toFixed 2 (of_int ((e - s) div 60000) / 60),
                if getHours tz s \<ge> 10 then LATE else PRESENT))"
proof (cases "e < s")
  case True
  then show ?thesis by (simp add: durationAndStatus_def)
next
  case False
  then have le: "s \<le> e" by simp
  have "0 \<le> (e - s) div 60000" using le by (simp add: pos_imp_zdiv_nonneg_iff)
  then have "\<not> 0 < (e - s) div 60000 \<Longrightarrow> (e - s) div 60000 = 0" by simp
  with False le show ?thesis
    by (auto simp: durationAndStatus_def Let_def differenceInMinutes_later toFixed_zero)
qed

lemma durationAndStatus_partial:
  "ci = None \<or> co = None \<Longrightarrow> durationAndStatus tz ci co = Inr (0, PRESENT)"
  by (auto simp: durationAndStatus_def split: option.splits)

lemma handleSaveEdit_Updated:
  assumes "handleSaveEdit uid tz records now isCreating editingRecord editForm = Updated r"
  shows "durationAndStatus tz (formCheckIn editForm) (formCheckOut editForm) =
           Inr (durationHours r, status r)
         \<and> checkIn r = formCheckIn editForm \<and> checkOut r = formCheckOut editForm
         \<and> formDate editForm = Some (date r) \<and> utcMidnight (date r) \<le> now
         \<and> employeeId r = uid"
  using assms
  by (auto simp: handleSaveEdit_def split: if_splits sum.splits option.splits prod.splits)

lemma handleSaveEdit_rejects_range:
  assumes "formCheckIn editForm = Some s" and "formCheckOut editForm = Some e" and "e < s"
  shows "handleSaveEdit uid tz records now isCreating editingRecord editForm
           \<in> {Returned, Alerted futureDateAlert, Alerted duplicateAlert, Alerted timeRangeAlert}"
  using assms by (simp add: handleSaveEdit_def durationAndStatus_both)

section \<open>Optimistic update and delete\<close>

lemma optimisticUpdate_mem: "u \<in> set (optimisticUpdate rs u)"
proof (cases "find (\<lambda>r. id' r = id' u) rs")
  case None
  then show ?thesis by (simp add: optimisticUpdate_def)
next
  case (Some e)
  then have "e \<in> set rs" "id' e = id' u"
    by (auto simp: find_Some_iff)
  then have "u \<in> (\<lambda>r. if id' r = id' u then u else r) ` set rs"
    by (intro image_eqI[where x = e]) auto
  with Some show ?thesis by (simp add: optimisticUpdate_def)
qed

text \<open>
  Claim C5. Every mutation changes the local record list first and calls the store
  afterwards, once. Whatever the store answers, the list stays as the optimistic update
  left it (the updated record is in it, the deleted id is filtered out: nothing is rolled
  back); the store is called exactly once (nothing is retried); and a failure, whether an
  error answer or an exception, is surfaced as exactly one alert after the call, a
  success as none.
\<close>

theorem handlers_optimistic:
  "attendanceRecords (handleUpdateRecord answer app u) = optimisticUpdate (attendanceRecords app) u
   \<and> u \<in> set (attendanceRecords (handleUpdateRecord answer app u))
   \<and> (\<exists>alerts. effects (handleUpdateRecord answer app u) =
          effects app @ [SetAttendanceRecords (optimisticUpdate (attendanceRecords app) u), DbUpsert u]
            @ map Alert alerts
        \<and> (answer = DbOk \<longrightarrow> alerts = []) \<and> (answer \<noteq> DbOk \<longrightarrow> length alerts = 1))
   \<and> attendanceRecords (handleDeleteRecord answer app i) = optimisticDelete (attendanceRecords app) i
   \<and> (\<exists>alerts. effects (handleDeleteRecord answer app i) =
          effects app @ [SetAttendanceRecords (optimisticDelete (attendanceRecords app) i), DbDelete i]
            @ map Alert alerts
        \<and> (answer = DbOk \<longrightarrow> alerts = []) \<and> (answer \<noteq> DbOk \<longrightarrow> length alerts = 1))"
proof (intro conjI)
  show "attendanceRecords (handleUpdateRecord answer app u) = optimisticUpdate (attendanceRecords app) u"
    by (simp add: handleUpdateRecord_def Let_def)
  then show "u \<in> set (attendanceRecords (handleUpdateRecord answer app u))"
    by (simp add: optimisticUpdate_mem)
  show "\<exists>alerts. effects (handleUpdateRecord answer app u) =
          effects app @ [SetAttendanceRecords (optimisticUpdate (attendanceRecords app) u), DbUpsert u]
            @ map Alert alerts
        \<and> (answer = DbOk \<longrightarrow> alerts = []) \<and> (answer \<noteq> DbOk \<longrightarrow> length alerts = 1)"
  proof (cases answer)
    case DbOk
    then show ?thesis by (simp add: handleUpdateRecord_def Let_def)
  next
    case (DbError m)
    then show ?thesis
      by (intro exI[where x = "[''Failed to save record: '' @ orElse m ''Unknown error'']"])
         (simp add: handleUpdateRecord_def Let_def)
  next
    case (DbThrown e)
    then show ?thesis
      by (intro exI[where x = "[''An unexpected error occurred while saving.'']"])
         (simp add: handleUpdateRecord_def Let_def)
  qed
  show "attendanceRecords (handleDeleteRecord answer app i) = optimisticDelete (attendanceRecords app) i"
    by (simp add: handleDeleteRecord_def Let_def)
  show "\<exists>alerts. effects (handleDeleteRecord answer app i) =
          effects app @ [SetAttendanceRecords (optimisticDelete (attendanceRecords app) i), DbDelete i]
            @ map Alert alerts
        \<and> (answer = DbOk \<longrightarrow> alerts = []) \<and> (answer \<noteq> DbOk \<longrightarrow> length alerts = 1)"
  proof (cases answer)
    case DbOk
    then show ?thesis by (simp add: handleDeleteRecord_def Let_def)
  next
    case (DbError m)
    then show ?thesis
      by (intro exI[where x = "[''Failed to delete record: '' @ deleteErrorMsg (ErrorObject m)]"])
         (simp add: handleDeleteRecord_def Let_def)
  next
    case (DbThrown e)
    then show ?thesis
      by (intro exI[where x = "[''Failed to delete record: '' @ deleteErrorMsg e]"])
         (simp add: handleDeleteRecord_def Let_def)
  qed
qed

theorem handlers_optimistic_witness:
  "DbError (Some ''timeout'') \<noteq> DbOk
   \<and> morningRecord \<in> set (attendanceRecords
        (handleUpdateRecord (DbError (Some ''timeout'')) \<lparr>attendanceRecords = [], effects = []\<rparr>
           morningRecord))
   \<and> (\<exists>alerts. effects
        (handleUpdateRecord (DbError (Some ''timeout'')) \<lparr>attendanceRecords = [], effects = []\<rparr>
           morningRecord) =
          [SetAttendanceRecords [morningRecord], DbUpsert morningRecord] @ map Alert alerts
        \<and> length alerts = 1)"
proof -
  have upd: "optimisticUpdate [] morningRecord = [morningRecord]"
    by (simp add: optimisticUpdate_def)
  show ?thesis
    using handlers_optimistic [of "DbError (Some ''timeout'')"
        "\<lparr>attendanceRecords = [], effects = []\<rparr>" morningRecord]
    by (simp add: upd)
qed

text \<open>
  Claim C10. The optimistic delete keeps no record with the given id and keeps every other
  record, in the same order; deleting an id that no record has returns the list as it is,
  without an error; and deleting the same id a second time changes nothing more. This is
  the list \<open>handleDeleteRecord\<close> leaves in the local state.
\<close>

theorem optimisticDelete_exact:
  "(\<forall>r \<in> set (optimisticDelete rs i). id' r \<noteq> i)
   \<and> filter (\<lambda>r. id' r \<noteq> i) (optimisticDelete rs i) = filter (\<lambda>r. id' r \<noteq> i) rs
   \<and> (i \<notin> id' ` set rs \<longrightarrow> optimisticDelete rs i = rs)
   \<and> optimisticDelete (optimisticDelete rs i) i = optimisticDelete rs i
   \<and> attendanceRecords (handleDeleteRecord answer app i) = optimisticDelete (attendanceRecords app) i"
proof (intro conjI)
  show "\<forall>r \<in> set (optimisticDelete rs i). id' r \<noteq> i"
    by (simp add: optimisticDelete_def)
  show "filter (\<lambda>r. id' r \<noteq> i) (optimisticDelete rs i) = filter (\<lambda>r. id' r \<noteq> i) rs"
    by (simp add: optimisticDelete_def)
  show "i \<notin> id' ` set rs \<longrightarrow> optimisticDelete rs i = rs"
    by (auto simp: optimisticDelete_def filter_id_conv)
  show "optimisticDelete (optimisticDelete rs i) i = optimisticDelete rs i"
    by (simp add: optimisticDelete_def)
  show "attendanceRecords (handleDeleteRecord answer app i) = optimisticDelete (attendanceRecords app) i"
    by (simp add: handleDeleteRecord_def Let_def)
qed

theorem optimisticDelete_exact_witness:
  "''e2-2024-01-15'' \<notin> id' ` set [morningRecord]
   \<and> optimisticDelete [morningRecord] ''e2-2024-01-15'' = [morningRecord]
   \<and> optimisticDelete [morningRecord] ''e1-2024-01-15'' = []"
proof -
  have absent: "''e2-2024-01-15'' \<notin> id' ` set [morningRecord]"
    by (simp add: morningRecord_def)
  have gone: "optimisticDelete [morningRecord] ''e1-2024-01-15'' = []"
    by (simp add: optimisticDelete_def morningRecord_def)
  show ?thesis
    using optimisticDelete_exact [of "[morningRecord]" "''e2-2024-01-15''"] absent gone
    by simp
qed

section \<open>Duration of a day\<close>




section \<open>Check-out of a record that has no check-in\<close>

text \<open>
  A manual entry for today saved with both time fields empty has no check-in. Check-out
  on it goes through and stores the check-out time.
\<close>

theorem checkOut_without_checkIn_succeeds:
  "checkIn blankRecord = None
   \<and> handleCheckOut (Some blankRecord) (clock 19737 17 29 59) =
       Some (blankRecord\<lparr>checkOut := Some (clock 19737 17 29 59), durationHours := 0\<rparr>)
   \<and> Some (clock 19737 17 29 59) \<noteq> checkOut blankRecord"
  by code_simp

text \<open>
  Claim C9, as the code has it. \<open>handleCheckOut\<close> does not fail on a record whose check-in
  is null: it takes the current instant as the check-in time, so it stores the check-out
  time with duration 0 and leaves the other fields as they are. The dashboard offers the
  check-out button for every record of today without check-out, checked in or not.
\<close>

theorem checkOut_without_checkIn:
  "checkIn r = None \<Longrightarrow>
     handleCheckOut (Some r) now = Some (r\<lparr>checkOut := Some now, durationHours := 0\<rparr>)
     \<and> todayControl (Some (r\<lparr>checkOut := None\<rparr>)) = CheckOutButton"
  by (simp add: handleCheckOut_not_checkedIn todayControl_def)

theorem checkOut_without_checkIn_witness:
  "checkIn blankRecord = None
   \<and> handleCheckOut (Some blankRecord) (clock 19737 18 0 0) =
       Some (blankRecord\<lparr>checkOut := Some (clock 19737 18 0 0), durationHours := 0\<rparr>)"
proof -
  have bl: "checkIn blankRecord = None" by code_simp
  from checkOut_without_checkIn [OF bl, of "clock 19737 18 0 0"] bl show ?thesis by simp
qed

section \<open>A second check-in on the same day\<close>

lemma optimisticUpdate_same_id:
  assumes "r \<in> set (optimisticUpdate rs u)" and "id' r = id' u"
  shows "r = u"
proof (cases "find (\<lambda>r. id' r = id' u) rs")
  case None
  then have "\<forall>x \<in> set rs. id' x \<noteq> id' u" by (auto simp: find_None_iff)
  with None assms show ?thesis by (auto simp: optimisticUpdate_def)
next
  case (Some e)
  with assms show ?thesis by (auto simp: optimisticUpdate_def split: if_splits)
qed

lemma todayRecord_exists:
  assumes "\<exists>r \<in> set records. employeeId r = uid \<and> date r = todayStr tz today"
  shows "todayRecord uid tz today records \<noteq> None"
  using assms by (auto simp: todayRecord_def myRecords_def find_None_iff)

text \<open>
  Employee e1 has checked in at 09:00. Running \<open>handleCheckIn\<close> again at 11:00 builds a new
  record with the same id, and the optimistic update puts it in place of the first one:
  the check-in time is now 11:00 and the status Late.
\<close>

theorem second_checkIn_replaces:
  "todayRecord ''e1'' 0 (clock 19737 11 0 0) [morningRecord] = Some morningRecord
   \<and> optimisticUpdate [morningRecord]
        (handleCheckIn ''e1'' 0 (clock 19737 11 0 0) (clock 19737 11 0 0)) =
       [\<lparr> id' = ''e1-2024-01-15'', employeeId = ''e1'', date = 19737,
          checkIn = Some (clock 19737 11 0 0), checkOut = None,
          status = LATE, durationHours = 0 \<rparr>]
   \<and> optimisticUpdate [morningRecord]
        (handleCheckIn ''e1'' 0 (clock 19737 11 0 0) (clock 19737 11 0 0)) \<noteq> [morningRecord]"
  by code_simp

text \<open>
  Claim C3, as the code has it. There is no duplicate check in \<open>handleCheckIn\<close> and no
  error: while the local list holds a record of the employee dated today, the dashboard
  does not render the check-in button (it renders the check-out button or the Completed
  badge), so check-in is not invoked a second time and the record stays as it is.
  \<open>handleCheckIn\<close> itself always builds a record with the id derived from employee and
  date, and after the optimistic update that record is in the list and every record
  with that id is that record.
\<close>

theorem checkIn_not_offered_twice:
  "((\<exists>r \<in> set records. employeeId r = uid \<and> date r = todayStr tz today) \<longrightarrow>
      todayControl (todayRecord uid tz today records) \<noteq> CheckInButton)
   \<and> handleCheckIn uid tz today now \<in> set (optimisticUpdate records (handleCheckIn uid tz today now))
   \<and> (\<forall>r \<in> set (optimisticUpdate records (handleCheckIn uid tz today now)).
        id' r = recordId uid (todayStr tz today) \<longrightarrow> r = handleCheckIn uid tz today now)"
proof (intro conjI impI ballI)
  assume "\<exists>r \<in> set records. employeeId r = uid \<and> date r = todayStr tz today"
  then have "todayRecord uid tz today records \<noteq> None" by (rule todayRecord_exists)
  then show "todayControl (todayRecord uid tz today records) \<noteq> CheckInButton"
    by (auto simp: todayControl_def split: if_splits)
next
  show "handleCheckIn uid tz today now \<in> set (optimisticUpdate records (handleCheckIn uid tz today now))"
    by (rule optimisticUpdate_mem)
next
  fix r
  assume "r \<in> set (optimisticUpdate records (handleCheckIn uid tz today now))"
    and "id' r = recordId uid (todayStr tz today)"
  then show "r = handleCheckIn uid tz today now"
    by (intro optimisticUpdate_same_id) (simp_all add: handleCheckIn_def)
qed

theorem checkIn_not_offered_twice_witness:
  "(\<exists>r \<in> set [morningRecord]. employeeId r = ''e1'' \<and> date r = todayStr 0 (clock 19737 11 0 0))
   \<and> todayControl (todayRecord ''e1'' 0 (clock 19737 11 0 0) [morningRecord]) = CheckOutButton"
proof -
  have ex: "\<exists>r \<in> set [morningRecord]. employeeId r = ''e1'' \<and> date r = todayStr 0 (clock 19737 11 0 0)"
    by code_simp
  have ctl: "todayControl (todayRecord ''e1'' 0 (clock 19737 11 0 0) [morningRecord]) \<noteq> CheckInButton
      \<Longrightarrow> todayControl (todayRecord ''e1'' 0 (clock 19737 11 0 0) [morningRecord]) = CheckOutButton"
    by code_simp
  from checkIn_not_offered_twice [of "[morningRecord]" "''e1''" 0 "clock 19737 11 0 0"] ex ctl
  show ?thesis by blast
qed

section \<open>Status of a record\<close>

text \<open>
  Check-in classifies by the hour of the check-in alone. The edit form classifies only
  inside the branch that has both time fields: with either field empty the status stays
  at its initial value, Present.
\<close>

lemma handleCheckIn_status:
  "status (handleCheckIn uid tz today now) = LATE \<longleftrightarrow> getHours tz now \<ge> 10"
  by (simp add: handleCheckIn_def)

lemma handleSaveEdit_status:
  assumes "handleSaveEdit uid tz records now isCreating editingRecord editForm = Updated u"
  shows "status u =
           (case (checkIn u, checkOut u) of
              (Some s, Some e) \<Rightarrow> (if getHours tz s \<ge> 10 then LATE else PRESENT)
            | _ \<Rightarrow> PRESENT)"
proof -
  have das: "durationAndStatus tz (checkIn u) (checkOut u) = Inr (durationHours u, status u)"
    using handleSaveEdit_Updated [OF assms] by simp
  show ?thesis
  proof (cases "checkIn u")
    case None
    with das durationAndStatus_partial [of "checkIn u" "checkOut u" tz] show ?thesis by simp
  next
    case s: (Some s)
    show ?thesis
    proof (cases "checkOut u")
      case None
      with das durationAndStatus_partial [of "checkIn u" "checkOut u" tz] s show ?thesis by simp
    next
      case (Some e)
      with das s show ?thesis
        by (auto simp: durationAndStatus_both split: if_splits)
    qed
  qed
qed

text \<open>
  Claim C2 fails on the edit form. A manual entry for 2024-01-15 with check-in at 11:00 and
  no check-out is stored as Present, although the hour of its check-in is 11; check-in
  at the same instant through the check-in button is stored as Late.
\<close>

theorem manual_late_checkIn_stored_Present:
  "getHours 0 (clock 19737 11 0 0) = 11
   \<and> handleSaveEdit ''e1'' 0 [] (clock 19737 12 0 0) True None
        \<lparr>formDate = Some 19737, formCheckIn = Some (clock 19737 11 0 0), formCheckOut = None\<rparr> =
       Updated
         \<lparr> id' = ''e1-2024-01-15'', employeeId = ''e1'', date = 19737,
           checkIn = Some (clock 19737 11 0 0), checkOut = None,
           status = PRESENT, durationHours = 0 \<rparr>
   \<and> status (handleCheckIn ''e1'' 0 (clock 19737 11 0 0) (clock 19737 11 0 0)) = LATE"
  by code_simp

section \<open>Check-out before check-in in the edit form\<close>

text \<open>
  The validations run in a fixed order. A new entry dated tomorrow whose check-out is an
  hour before its check-in is rejected by the date check, with the alert for future
  dates, before the time fields are looked at.
\<close>

theorem future_date_alert_comes_first:
  "clock 19738 10 0 0 < clock 19738 11 0 0
   \<and> handleSaveEdit ''e1'' 0 [] (clock 19737 12 0 0) True None
        \<lparr>formDate = Some 19738, formCheckIn = Some (clock 19738 11 0 0),
         formCheckOut = Some (clock 19738 10 0 0)\<rparr> = Alerted futureDateAlert
   \<and> futureDateAlert \<noteq> timeRangeAlert"
  by code_simp

text \<open>
  Claim C4, as the code has it. An edit with both time fields filled and check-out before
  check-in is never saved: \<open>handleSaveEdit\<close> returns or alerts without calling
  \<^verbatim>\<open>onUpdateRecord\<close>, so the local record list is the one before the attempt and no
  record with a clamped duration is produced. The alert is the one for the time range
  whenever the earlier checks pass (there is something to save, the date is not in the
  future, and a new entry does not duplicate a record); otherwise the earlier check
  rejects the edit with its own alert, or silently.
\<close>

theorem reversed_times_rejected:
  assumes "formCheckIn editForm = Some s" and "formCheckOut editForm = Some e" and "e < s"
  shows "handleSaveEdit uid tz records now isCreating editingRecord editForm
           \<in> {Returned, Alerted futureDateAlert, Alerted duplicateAlert, Alerted timeRangeAlert}
         \<and> recordsAfterSave records
             (handleSaveEdit uid tz records now isCreating editingRecord editForm) = Some records
         \<and> ((isCreating \<or> editingRecord \<noteq> None)
              \<and> (\<exists>d. formDate editForm = Some d \<and> utcMidnight d \<le> now
                    \<and> (isCreating \<longrightarrow> find (\<lambda>r. id' r = recordId uid d) records = None))
             \<longrightarrow> handleSaveEdit uid tz records now isCreating editingRecord editForm
                   = Alerted timeRangeAlert)"
proof (intro conjI impI)
  show rej: "handleSaveEdit uid tz records now isCreating editingRecord editForm
           \<in> {Returned, Alerted futureDateAlert, Alerted duplicateAlert, Alerted timeRangeAlert}"
    using assms by (rule handleSaveEdit_rejects_range)
  then show "recordsAfterSave records
             (handleSaveEdit uid tz records now isCreating editingRecord editForm) = Some records"
    by auto
next
  assume "(isCreating \<or> editingRecord \<noteq> None)
              \<and> (\<exists>d. formDate editForm = Some d \<and> utcMidnight d \<le> now
                    \<and> (isCreating \<longrightarrow> find (\<lambda>r. id' r = recordId uid d) records = None))"
  then show "handleSaveEdit uid tz records now isCreating editingRecord editForm
                   = Alerted timeRangeAlert"
    using assms by (auto simp: handleSaveEdit_def durationAndStatus_both)
qed

theorem reversed_times_rejected_witness:
  "formCheckIn \<lparr>formDate = Some 19737, formCheckIn = Some (clock 19737 11 0 0),
         formCheckOut = Some (clock 19737 10 0 0)\<rparr> = Some (clock 19737 11 0 0)
   \<and> clock 19737 10 0 0 < clock 19737 11 0 0
   \<and> utcMidnight 19737 \<le> clock 19737 12 0 0
   \<and> handleSaveEdit ''e1'' 0 [] (clock 19737 12 0 0) True None
        \<lparr>formDate = Some 19737, formCheckIn = Some (clock 19737 11 0 0),
         formCheckOut = Some (clock 19737 10 0 0)\<rparr> = Alerted timeRangeAlert
   \<and> recordsAfterSave []
        (handleSaveEdit ''e1'' 0 [] (clock 19737 12 0 0) True None
           \<lparr>formDate = Some 19737, formCheckIn = Some (clock 19737 11 0 0),
            formCheckOut = Some (clock 19737 10 0 0)\<rparr>) = Some []"
proof -
  let ?form = "\<lparr>formDate = Some 19737, formCheckIn = Some (clock 19737 11 0 0),
         formCheckOut = Some (clock 19737 10 0 0)\<rparr>"
  have ci: "formCheckIn ?form = Some (clock 19737 11 0 0)" by simp
  have co: "formCheckOut ?form = Some (clock 19737 10 0 0)" by simp
  have lt: "clock 19737 10 0 0 < clock 19737 11 0 0" by code_simp
  have notfuture: "utcMidnight 19737 \<le> clock 19737 12 0 0" by code_simp
  have pre: "(True \<or> (None :: AttendanceRecord option) \<noteq> None)
      \<and> (\<exists>d. formDate ?form = Some d \<and> utcMidnight d \<le> clock 19737 12 0 0
            \<and> (True \<longrightarrow> find (\<lambda>r. id' r = recordId ''e1'' d) [] = None))"
    using notfuture by simp
  note inst = reversed_times_rejected [OF ci co lt, of "''e1''" 0 "[]" "clock 19737 12 0 0" True None]
  from mp [OF inst [THEN conjunct2, THEN conjunct2] pre]
  have a: "handleSaveEdit ''e1'' 0 [] (clock 19737 12 0 0) True None ?form = Alerted timeRangeAlert" .
  from inst [THEN conjunct2, THEN conjunct1]
  have b: "recordsAfterSave [] (handleSaveEdit ''e1'' 0 [] (clock 19737 12 0 0) True None ?form)
      = Some []" .
  from ci lt notfuture a b show ?thesis by (intro conjI)
qed

section \<open>Dates in the future and in the past\<close>

text \<open>
  The date check compares midnight UTC of the entered date with the current instant. East
  of Greenwich (and at it) that rejects every date after the user's current date; a date
  before the user's current date always passes it.
\<close>

lemma div_less_imp_less_mult:
  assumes "0 < (b::int)" and "a div b < d"
  shows "a < d * b"
proof -
  from assms(2) have "a div b + 1 \<le> d" by simp
  then have "(a div b + 1) * b \<le> d * b" using assms(1) by (simp add: mult_right_mono)
  moreover have "(a div b + 1) * b = a div b * b + b" by (simp add: algebra_simps)
  moreover have "a = a div b * b + a mod b" by simp
  moreover have "a mod b < b" using assms(1) by simp
  ultimately show ?thesis by linarith
qed

lemma less_div_imp_mult_le:
  assumes "0 < (b::int)" and "d < a div b"
  shows "(d + 1) * b \<le> a"
proof -
  from assms(2) have "d + 1 \<le> a div b" by simp
  then have "(d + 1) * b \<le> a div b * b" using assms(1) by (simp add: mult_right_mono)
  moreover have "a = a div b * b + a mod b" by simp
  moreover have "0 \<le> a mod b" using assms(1) by simp
  ultimately show ?thesis by linarith
qed

lemma future_date_rejected_east_of_UTC:
  assumes "0 \<le> tz" and "localDate tz now < d" and "formDate editForm = Some d"
    and "isCreating \<or> editingRecord \<noteq> None"
  shows "handleSaveEdit uid tz records now isCreating editingRecord editForm = Alerted futureDateAlert"
proof -
  from assms(2) have "(now + tz) div 86400000 < d" by (simp add: localDate_def)
  then have "now + tz < d * 86400000" by (intro div_less_imp_less_mult) simp_all
  then have "now < utcMidnight d" using assms(1) by (simp add: utcMidnight_def)
  with assms(3,4) show ?thesis by (auto simp: handleSaveEdit_def)
qed

lemma past_date_not_future:
  assumes "tz \<le> 86400000" and "d < localDate tz now"
  shows "utcMidnight d \<le> now"
proof -
  from assms(2) have "d < (now + tz) div 86400000" by (simp add: localDate_def)
  then have "(d + 1) * 86400000 \<le> now + tz" by (intro less_div_imp_mult_le) simp_all
  then have "d * 86400000 + 86400000 \<le> now + tz" by (simp add: algebra_simps)
  then show ?thesis using assms(1) by (simp add: utcMidnight_def)
qed

lemma past_date_saved:
  assumes "tz \<le> 86400000" and "d < localDate tz now" and "formDate editForm = Some d"
    and "find (\<lambda>r. id' r = recordId uid d) records = None"
    and "durationAndStatus tz (formCheckIn editForm) (formCheckOut editForm) = Inr (duration, st)"
  shows "\<exists>r. handleSaveEdit uid tz records now True None editForm = Updated r \<and> date r = d"
proof -
  have "\<not> now < utcMidnight d" using past_date_not_future [OF assms(1,2)] by simp
  with assms(3,4,5) show ?thesis by (simp add: handleSaveEdit_def)
qed

text \<open>
  Claim C8 fails west of Greenwich. At 20:00 on 2024-01-15 in a browser five hours behind
  UTC it is already 01:00 UTC of 2024-01-16, so midnight UTC of 2024-01-16 is not after
  the current instant: a manual entry dated 2024-01-16, the user's tomorrow, passes the
  date check and is saved.
\<close>

theorem tomorrow_accepted_west_of_UTC:
  "localDate (- 18000000) (clock 19738 1 0 0) = 19737
   \<and> getHours (- 18000000) (clock 19738 1 0 0) = 20
   \<and> handleSaveEdit ''e1'' (- 18000000) [] (clock 19738 1 0 0) True None
        \<lparr>formDate = Some 19738, formCheckIn = None, formCheckOut = None\<rparr> =
       Updated
         \<lparr> id' = ''e1-2024-01-16'', employeeId = ''e1'', date = 19738,
           checkIn = None, checkOut = None, status = PRESENT, durationHours = 0 \<rparr>"
  by code_simp

section \<open>Statistics\<close>







section \<open>The manager's chart\<close>

lemma employeeChartData_recent:
  "employeeChartData filtered =
     rev (map (\<lambda>record. (format_dd_MMM (date record), durationHours record)) (take 10 filtered))"
  by (simp add: employeeChartData_def rev_map)

text \<open>
  Claim C7 fails on the cap. With one record on each of the fifteen days from 2024-01-01
  to 2024-01-15, the filtered list runs from the 15th down to the 1st; the chart series is
  in chronological order but holds the fourteen oldest days, 1 to 14 January, and the
  most recent day is the one left out. (\<^verbatim>\<open>reverse()\<close> comes before \<^verbatim>\<open>slice(0, 14)\<close>.)
\<close>

theorem chart_keeps_fourteen_oldest:
  "map date (filteredRecords current 0 (clock 19742 12 0 0) fifteenDays) = rev [19723..19737]
   \<and> map date' (chartData (filteredRecords current 0 (clock 19742 12 0 0) fifteenDays)) =
       [''01 Jan'', ''02 Jan'', ''03 Jan'', ''04 Jan'', ''05 Jan'', ''06 Jan'', ''07 Jan'',
        ''08 Jan'', ''09 Jan'', ''10 Jan'', ''11 Jan'', ''12 Jan'', ''13 Jan'', ''14 Jan'']"
proof -
  have filtered: "filteredRecords current 0 (clock 19742 12 0 0) fifteenDays = rev fifteenDays"
    by code_simp
  have dates: "map date (rev fifteenDays) = rev [19723..19737]"
    by code_simp
  have chart: "map date' (chartData (rev fifteenDays)) =
       [''01 Jan'', ''02 Jan'', ''03 Jan'', ''04 Jan'', ''05 Jan'', ''06 Jan'', ''07 Jan'',
        ''08 Jan'', ''09 Jan'', ''10 Jan'', ''11 Jan'', ''12 Jan'', ''13 Jan'', ''14 Jan'']"
    by code_simp
  show ?thesis
    unfolding filtered using dates chart by (rule conjI)
qed

end
